theory Spec2Isabelle
  imports Complex_Main "HOL-Library.Multiset" "HOL-Library.Product_Lexorder"
begin

section \<open>JavaScript numbers\<close>

text \<open>
  A TypeScript \<open>number\<close> is an IEEE 754 double. A finite double is modelled by its
  exact real value, next to the two infinities and NaN. The sign of zero is not
  modelled: \<open>-0\<close> and \<open>+0\<close> are the one value \<open>Num 0\<close>, and a zero divisor is taken
  to be \<open>+0\<close>.
\<close>

datatype number = Num real | PosInf | NegInf | NaN

text \<open>
  Rounding of a real to an integer, to nearest and a tie to the even neighbour.
\<close>

definition rne :: "real \<Rightarrow> int" where
  "rne z = (let f = \<lfloor>z\<rfloor>; d = z - real_of_int f
            in if d < 1 / 2 then f else if 1 / 2 < d then f + 1
               else if even f then f else f + 1)"

text \<open>
  The double that an exact result is rounded to (round to nearest, ties to even),
  which every arithmetic operation and \<open>parseFloat\<close> deliver: the result is a multiple
  of the unit in the last of 53 places of its binade, the binades below \<open>2^-1022\<close>
  share the unit \<open>2^-1074\<close>, and a rounded magnitude of \<open>2^1024\<close> is an infinity.
\<close>

definition fl :: "real \<Rightarrow> number" where
  "fl x = (if x = 0 then Num 0
           else let e = max \<lfloor>log 2 \<bar>x\<bar>\<rfloor> (- 1022);
                    u = 2 powi (e - 52);
                    y = real_of_int (rne (x / u)) * u
                in if 2 ^ 1024 \<le> y then PosInf
                   else if y \<le> - (2 ^ 1024) then NegInf else Num y)"

text \<open>\<open>a + b\<close> of JavaScript.\<close>

fun js_add :: "number \<Rightarrow> number \<Rightarrow> number" where
  "js_add NaN _ = NaN"
| "js_add _ NaN = NaN"
| "js_add PosInf NegInf = NaN"
| "js_add NegInf PosInf = NaN"
| "js_add PosInf _ = PosInf"
| "js_add _ PosInf = PosInf"
| "js_add NegInf _ = NegInf"
| "js_add _ NegInf = NegInf"
| "js_add (Num a) (Num b) = fl (a + b)"

text \<open>\<open>a / b\<close> of JavaScript: \<open>0 / 0\<close> is NaN, \<open>x / 0\<close> is an infinity.\<close>

fun js_div :: "number \<Rightarrow> number \<Rightarrow> number" where
  "js_div NaN _ = NaN"
| "js_div _ NaN = NaN"
| "js_div PosInf PosInf = NaN"
| "js_div PosInf NegInf = NaN"
| "js_div NegInf PosInf = NaN"
| "js_div NegInf NegInf = NaN"
| "js_div PosInf (Num b) = (if 0 \<le> b then PosInf else NegInf)"
| "js_div NegInf (Num b) = (if 0 \<le> b then NegInf else PosInf)"
| "js_div (Num a) PosInf = Num 0"
| "js_div (Num a) NegInf = Num 0"
| "js_div (Num a) (Num b) =
     (if b = 0 then (if a = 0 then NaN else if 0 < a then PosInf else NegInf)
      else fl (a / b))"

text \<open>\<open>a <= b\<close> and \<open>a > b\<close> of JavaScript: every comparison with NaN is false.\<close>

fun js_le :: "number \<Rightarrow> number \<Rightarrow> bool" where
  "js_le NaN _ = False"
| "js_le _ NaN = False"
| "js_le NegInf _ = True"
| "js_le _ PosInf = True"
| "js_le PosInf _ = False"
| "js_le _ NegInf = False"
| "js_le (Num a) (Num b) = (a \<le> b)"

fun js_gt :: "number \<Rightarrow> number \<Rightarrow> bool" where
  "js_gt NaN _ = False"
| "js_gt _ NaN = False"
| "js_gt a b = (\<not> js_le a b)"

text \<open>Truthiness of a number, as in \<open>x ? a : b\<close>: zero and NaN are falsy.\<close>

fun truthy :: "number \<Rightarrow> bool" where
  "truthy (Num x) = (x \<noteq> 0)"
| "truthy NaN = False"
| "truthy _ = True"

text \<open>
  \<open>parseFloat(x.toFixed(2))\<close>. \<open>toFixed\<close> prints NaN and the infinities by name and
  a value of magnitude at least \<open>10^21\<close> in exponent notation, all of which
  \<open>parseFloat\<close> reads back unchanged; any other value is printed as the multiple of
  \<open>1/100\<close> nearest to the exact value of the double, a tie going away from zero
  (\<open>round2\<close>), and \<open>parseFloat\<close> reads the double nearest to that decimal.
\<close>

definition round2 :: "real \<Rightarrow> real" where
  "round2 x = sgn x * real_of_int \<lfloor>\<bar>x\<bar> * 100 + 1 / 2\<rfloor> / 100"

fun toFixed2 :: "number \<Rightarrow> number" where
  "toFixed2 (Num x) = (if 10 ^ 21 \<le> \<bar>x\<bar> then Num x else fl (round2 x))"
| "toFixed2 n = n"

section \<open>Data model (types.ts, constants.ts)\<close>

datatype Priority = HIGH | MEDIUM | LOW

datatype Status = TODO | IN_PROGRESS | DONE

text \<open>
  The \<open>Task\<close> interface. \<open>createdAt\<close> is always written from \<open>Date.now()\<close>, an
  integer count of milliseconds, and is modelled as an \<open>int\<close>.
\<close>

record Task =
  task_id :: string
  title :: string
  revenue :: number
  timeTaken :: number
  roi :: number
  priority :: Priority
  status :: Status
  task_notes :: string
  createdAt :: int

record TaskSummary =
  totalRevenue :: number
  avgRoi :: number
  efficiency :: number
  performanceGrade :: string

fun PRIORITY_ORDER :: "Priority \<Rightarrow> int" where
  "PRIORITY_ORDER HIGH = 3"
| "PRIORITY_ORDER MEDIUM = 2"
| "PRIORITY_ORDER LOW = 1"

section \<open>Utilities (utils/taskUtils)\<close>

text \<open>
  Modelled from the spec: \<open>calculateRoi\<close> of \<open>utils/taskUtils\<close>, which App.tsx imports
  and whose file is not among the sources. The spec's contract: revenue divided by
  time when the time is greater than zero, and zero otherwise (a time that is not a
  number counts as zero).
\<close>

definition calculateRoi :: "number \<Rightarrow> number \<Rightarrow> number" where
  "calculateRoi rv tm = (if js_gt tm (Num 0) then js_div rv tm else Num 0)"

text \<open>
  Modelled from the spec: \<open>sortTasks\<close> of \<open>utils/taskUtils\<close>, not among the
  sources. The spec's contract: a new list ordered by priority descending (through
  \<open>PRIORITY_ORDER\<close> of constants.ts) and, among equal priorities, by creation time
  descending, by a stable sort. \<open>compareTasks\<close> is the comparator of that order
  (negative or zero when the first task may stand before the second), and the sort is
  a stable insertion in input order, as \<open>Array.prototype.sort\<close> is stable.
\<close>

definition compareTasks :: "Task \<Rightarrow> Task \<Rightarrow> int" where
  "compareTasks a b =
     (if PRIORITY_ORDER (priority b) - PRIORITY_ORDER (priority a) \<noteq> 0
      then PRIORITY_ORDER (priority b) - PRIORITY_ORDER (priority a)
      else createdAt b - createdAt a)"

text \<open>
  Modelled from the spec: one step of the stable sort, placing a task before the first
  task of an ordered list that it may stand before.
\<close>

fun insertTask :: "Task \<Rightarrow> Task list \<Rightarrow> Task list" where
  "insertTask x [] = [x]"
| "insertTask x (y # ys) =
     (if compareTasks x y \<le> 0 then x # y # ys else y # insertTask x ys)"

text \<open>
  Modelled from the spec: \<open>sortTasks\<close> itself; it builds a new list and leaves its
  argument as it is.
\<close>

definition sortTasks :: "Task list \<Rightarrow> Task list" where
  "sortTasks ts = foldr insertTask ts []"

text \<open>
  Modelled from the spec: \<open>getPerformanceGrade\<close> of \<open>utils/taskUtils\<close>, not among
  the sources. The spec describes a step function over fixed thresholds, the top grade
  for a high ROI and lower grades through lower bands, and leaves the thresholds open
  as configurable constants; they are the parameter \<open>bands\<close> here, tested from the
  top, with \<open>lowest\<close> the grade of a value that meets none.
\<close>

fun getPerformanceGrade :: "(real \<times> string) list \<Rightarrow> string \<Rightarrow> number \<Rightarrow> string" where
  "getPerformanceGrade [] lowest x = lowest"
| "getPerformanceGrade ((t, g) # bands) lowest x =
     (if js_le (Num t) x then g else getPerformanceGrade bands lowest x)"

text \<open>The position of the band a value falls into: 0 is the top band.\<close>

fun bandIndex :: "(real \<times> string) list \<Rightarrow> number \<Rightarrow> nat" where
  "bandIndex [] x = 0"
| "bandIndex ((t, g) # bands) x = (if js_le (Num t) x then 0 else Suc (bandIndex bands x))"

text \<open>The grades from best to worst.\<close>

definition gradeLadder :: "(real \<times> string) list \<Rightarrow> string \<Rightarrow> string list" where
  "gradeLadder bands lowest = map snd bands @ [lowest]"

section \<open>Application state and handlers (App.tsx)\<close>

text \<open>
  The state of the \<open>App\<close> component that the handlers read and write, and the console
  as the list of entries logged so far (\<open>console.error\<close>'s message and the error it
  is given). The search text, the priority filter and the task being viewed are touched
  by none of the handlers below. \<open>error\<close> is the reason a promise rejects with.
\<close>

datatype error = LoadError string

record AppState =
  tasks :: "Task list"
  isLoading :: bool
  lastDeletedTask :: "Task option"
  showSnackbar :: bool
  editingTask :: "Task option"
  isAdding :: bool
  console :: "(string \<times> error) list"

text \<open>The state of \<open>useState\<close>'s initial values.\<close>

definition initialState :: AppState where
  "initialState =
     \<lparr>tasks = [], isLoading = True, lastDeletedTask = None, showSnackbar = False,
      editingTask = None, isAdding = False, console = []\<rparr>"

text \<open>
  The initial load. \<open>fetchTasks\<close> is awaited: its promise either rejects (\<open>Inl\<close>) or
  yields the saved list (\<open>Inr\<close>). \<open>init_try\<close> is the body of the \<open>try\<close>, where a
  rejection is an exception; \<open>init\<close> adds the \<open>catch\<close>. \<open>mounted\<close> is the flag the
  effect's cleanup clears.
\<close>

definition init_try :: "error + Task list \<Rightarrow> bool \<Rightarrow> AppState \<Rightarrow> error + AppState" where
  "init_try fetched mounted s =
     (case fetched of
        Inl e \<Rightarrow> Inl e
      | Inr data \<Rightarrow> Inr (if mounted then s\<lparr>tasks := data, isLoading := False\<rparr> else s))"

definition init :: "error + Task list \<Rightarrow> bool \<Rightarrow> AppState \<Rightarrow> error + AppState" where
  "init fetched mounted s =
     (case init_try fetched mounted s of
        Inr s' \<Rightarrow> Inr s'
      | Inl e \<Rightarrow>
          (let s1 = s\<lparr>console := console s @ [(''Failed to load tasks'', e)]\<rparr>
           in Inr (if mounted then s1\<lparr>isLoading := False\<rparr> else s1)))"

text \<open>
  \<open>closeSnackbar\<close> hides the snackbar at once; the undo buffer is cleared by a timer
  300 ms later, the separate event \<open>clearLastDeleted\<close>.
\<close>

definition closeSnackbar :: "AppState \<Rightarrow> AppState" where
  "closeSnackbar s = s\<lparr>showSnackbar := False\<rparr>"

definition clearLastDeleted :: "AppState \<Rightarrow> AppState" where
  "clearLastDeleted s = s\<lparr>lastDeletedTask := None\<rparr>"

text \<open>The \<open>summary\<close> memo. The grade bands are those of \<open>getPerformanceGrade\<close>.\<close>

definition sumRevenue :: "Task list \<Rightarrow> number" where
  "sumRevenue ts = foldl (\<lambda>acc t. js_add acc (revenue t)) (Num 0) ts"

definition sumRoi :: "Task list \<Rightarrow> number" where
  "sumRoi ts = foldl (\<lambda>acc t. js_add acc (roi t)) (Num 0) ts"

definition sumTime :: "Task list \<Rightarrow> number" where
  "sumTime ts = foldl (\<lambda>acc t. js_add acc (timeTaken t)) (Num 0) ts"

definition summary :: "(real \<times> string) list \<Rightarrow> string \<Rightarrow> Task list \<Rightarrow> TaskSummary" where
  "summary bands lowest ts =
     (let totalRevenue' = sumRevenue ts;
          avgRoi' = (if length ts \<noteq> 0
                     then js_div (sumRoi ts) (Num (real (length ts))) else Num 0);
          totalTime = sumTime ts
      in \<lparr>totalRevenue = totalRevenue',
          avgRoi = toFixed2 avgRoi',
          efficiency = (if truthy totalTime
                        then toFixed2 (js_div totalRevenue' totalTime) else Num 0),
          performanceGrade = getPerformanceGrade bands lowest avgRoi'\<rparr>)"

definition handleDelete :: "Task \<Rightarrow> AppState \<Rightarrow> AppState" where
  "handleDelete task s =
     s\<lparr>lastDeletedTask := Some task,
       tasks := filter (\<lambda>t. task_id t \<noteq> task_id task) (tasks s),
       showSnackbar := True\<rparr>"

definition handleUndo :: "AppState \<Rightarrow> AppState" where
  "handleUndo s =
     (case lastDeletedTask s of
        Some task \<Rightarrow> closeSnackbar (s\<lparr>tasks := tasks s @ [task]\<rparr>)
      | None \<Rightarrow> s)"

text \<open>
  The submitted form, with \<open>revenue\<close> and \<open>timeTaken\<close> already passed through
  \<open>Number(...)\<close>. \<open>handleSaveTask\<close> takes the two values it draws from the
  environment, \<open>crypto.randomUUID()\<close> and \<open>Date.now()\<close>, as arguments.
\<close>

record TaskForm =
  form_title :: string
  form_revenue :: number
  form_timeTaken :: number
  form_priority :: Priority
  form_status :: Status
  form_notes :: string

definition applyTaskData :: "TaskForm \<Rightarrow> Task \<Rightarrow> Task" where
  "applyTaskData form t =
     t\<lparr>title := form_title form,
       revenue := form_revenue form,
       timeTaken := form_timeTaken form,
       priority := form_priority form,
       status := form_status form,
       task_notes := form_notes form,
       roi := calculateRoi (form_revenue form) (form_timeTaken form)\<rparr>"

definition handleSaveTask :: "TaskForm \<Rightarrow> string \<Rightarrow> int \<Rightarrow> AppState \<Rightarrow> AppState" where
  "handleSaveTask form uuid now s =
     (case editingTask s of
        Some e \<Rightarrow>
          s\<lparr>tasks := map (\<lambda>t. if task_id t = task_id e then applyTaskData form t else t) (tasks s),
            editingTask := None\<rparr>
      | None \<Rightarrow>
          (let newTask =
             \<lparr>task_id = uuid, title = form_title form, revenue = form_revenue form,
              timeTaken = form_timeTaken form,
              roi = calculateRoi (form_revenue form) (form_timeTaken form),
              priority = form_priority form, status = form_status form,
              task_notes = form_notes form, createdAt = now\<rparr>
           in s\<lparr>tasks := tasks s @ [newTask], isAdding := False\<rparr>))"

section \<open>Properties to be shown\<close>

text \<open>
  The order the sorter is to establish between a task and any task after it: a higher
  priority, or the same priority and a creation time at least as recent.
\<close>

definition rankedBefore :: "Task \<Rightarrow> Task \<Rightarrow> bool" where
  "rankedBefore a b \<longleftrightarrow>
     PRIORITY_ORDER (priority b) < PRIORITY_ORDER (priority a)
     \<or> (priority a = priority b \<and> createdAt b \<le> createdAt a)"

text \<open>The two sort keys as one value, ordered lexicographically; used in the proofs.\<close>

definition sortKey :: "Task \<Rightarrow> int \<times> int" where
  "sortKey t = (- PRIORITY_ORDER (priority t), - createdAt t)"

text \<open>The data-model invariant: \<open>roi\<close> is what the calculator gives for the task.\<close>

definition roiDerived :: "Task \<Rightarrow> bool" where
  "roiDerived t \<longleftrightarrow> roi t = calculateRoi (revenue t) (timeTaken t)"

section \<open>Sample data\<close>

definition taskA :: Task where
  "taskA = \<lparr>task_id = ''1'', title = ''Enterprise Upsell'', revenue = Num 5000,
            timeTaken = Num 10, roi = Num 500, priority = HIGH, status = IN_PROGRESS,
            task_notes = ''Follow up'', createdAt = 100\<rparr>"

definition taskB :: Task where
  "taskB = \<lparr>task_id = ''2'', title = ''Renewal'', revenue = Num 2000,
            timeTaken = Num 5, roi = Num 400, priority = MEDIUM, status = TODO,
            task_notes = ''Due next week'', createdAt = 200\<rparr>"

definition taskC :: Task where
  "taskC = \<lparr>task_id = ''3'', title = ''Cold call'', revenue = Num 1,
            timeTaken = Num 3, roi = Num (6004799503160661 / 2 ^ 54), priority = LOW, status = DONE,
            task_notes = [], createdAt = 300\<rparr>"

definition taskD :: Task where
  "taskD = \<lparr>task_id = ''4'', title = ''Second upsell'', revenue = Num 800,
            timeTaken = Num 4, roi = Num 200, priority = HIGH, status = TODO,
            task_notes = [], createdAt = 100\<rparr>"



definition sampleForm :: TaskForm where
  "sampleForm = \<lparr>form_title = ''Edited'', form_revenue = Num 1000,
                 form_timeTaken = Num 10, form_priority = LOW, form_status = DONE,
                 form_notes = ''n''\<rparr>"

definition sampleBands :: "(real \<times> string) list" where
  "sampleBands = [(500, ''A''), (200, ''B'')]"

section \<open>Rounding to a double\<close>

lemma fl_0: "fl 0 = Num 0"
  by (simp add: fl_def)


lemma binade_eq:
  assumes "2 powi e \<le> \<bar>x\<bar>" and "\<bar>x\<bar> < 2 powi (e + 1)"
  shows "\<lfloor>log 2 \<bar>x\<bar>\<rfloor> = e"
proof -
  have pos: "0 < \<bar>x\<bar>"
    using assms(1) by (smt (verit) zero_less_power_int)
  have "2 powr real_of_int e \<le> \<bar>x\<bar>" "\<bar>x\<bar> < 2 powr (real_of_int e + 1)"
    using assms powr_real_of_int' [of 2 e] powr_real_of_int' [of 2 "e + 1"] by simp_all
  with pos show ?thesis
    by (simp add: floor_log_eq_powr_iff)
qed

lemma fl_eval:
  assumes "2 powi e \<le> \<bar>x\<bar>" and "\<bar>x\<bar> < 2 powi (e + 1)" and "- 1022 \<le> e"
  shows "fl x = (let y = real_of_int (rne (x / 2 powi (e - 52))) * 2 powi (e - 52)
                 in if 2 ^ 1024 \<le> y then PosInf
                    else if y \<le> - (2 ^ 1024) then NegInf else Num y)"
proof -
  have "x \<noteq> 0"
    using assms(1) by (smt (verit) zero_less_power_int)
  moreover have "max \<lfloor>log 2 \<bar>x\<bar>\<rfloor> (- 1022) = e"
    using binade_eq [OF assms(1,2)] assms(3) by simp
  ultimately show ?thesis
    by (simp add: fl_def Let_def)
qed

lemma rne_of_int: "rne (real_of_int k) = k"
  by (simp add: rne_def)


lemma binade_bounds:
  assumes "x \<noteq> 0"
  shows "2 powi \<lfloor>log 2 \<bar>x\<bar>\<rfloor> \<le> \<bar>x\<bar>" and "\<bar>x\<bar> < 2 powi (\<lfloor>log 2 \<bar>x\<bar>\<rfloor> + 1)"
proof -
  from assms have pos: "0 < \<bar>x\<bar>" by simp
  have "2 powr real_of_int \<lfloor>log 2 \<bar>x\<bar>\<rfloor> \<le> \<bar>x\<bar>
        \<and> \<bar>x\<bar> < 2 powr (real_of_int \<lfloor>log 2 \<bar>x\<bar>\<rfloor> + 1)"
    using floor_log_eq_powr_iff [of "\<bar>x\<bar>" 2 "\<lfloor>log 2 \<bar>x\<bar>\<rfloor>"] pos by simp
  then show "2 powi \<lfloor>log 2 \<bar>x\<bar>\<rfloor> \<le> \<bar>x\<bar>" and "\<bar>x\<bar> < 2 powi (\<lfloor>log 2 \<bar>x\<bar>\<rfloor> + 1)"
    using powr_real_of_int' [of 2 "\<lfloor>log 2 \<bar>x\<bar>\<rfloor>"] powr_real_of_int' [of 2 "\<lfloor>log 2 \<bar>x\<bar>\<rfloor> + 1"]
    by simp_all
qed

lemma fl_of_int:
  assumes "\<bar>k\<bar> < 2 ^ 53"
  shows "fl (real_of_int k) = Num (real_of_int k)"
proof (cases "k = 0")
  case True
  then show ?thesis by (simp add: fl_0)
next
  case False
  define x where "x = real_of_int k"
  define e where "e = \<lfloor>log 2 \<bar>x\<bar>\<rfloor>"
  from False have nz: "x \<noteq> 0" and ge1: "1 \<le> \<bar>x\<bar>" by (simp_all add: x_def)
  have lo: "2 powi e \<le> \<bar>x\<bar>" and hi: "\<bar>x\<bar> < 2 powi (e + 1)"
    unfolding e_def using binade_bounds [OF nz] by simp_all
  have e0: "0 \<le> e"
  proof (rule ccontr)
    assume "\<not> 0 \<le> e"
    then have "e + 1 \<le> 0" by simp
    then have "(2::real) powi (e + 1) \<le> 2 powi 0"
      by (intro power_int_increasing) simp_all
    with hi ge1 show False by simp
  qed
  have e52: "e \<le> 52"
  proof (rule ccontr)
    assume "\<not> e \<le> 52"
    then have "53 \<le> e" by simp
    then have "(2::real) powi 53 \<le> 2 powi e"
      by (intro power_int_increasing) simp_all
    moreover from assms have "\<bar>x\<bar> < 2 ^ 53"
      unfolding x_def by (metis of_int_abs of_int_less_numeral_power_cancel_iff)
    ultimately show False using lo by simp
  qed
  define d where "d = nat (52 - e)"
  have u: "(2::real) powi (e - 52) = 1 / 2 ^ d"
    using e52 by (simp add: d_def power_int_def field_simps)
  have q: "x / 2 powi (e - 52) = real_of_int (k * 2 ^ d)"
    by (simp add: u x_def)
  have y: "real_of_int (rne (x / 2 powi (e - 52))) * 2 powi (e - 52) = x"
    unfolding q rne_of_int by (simp add: u x_def)
  from assms have small: "\<bar>x\<bar> < 2 ^ 53"
    unfolding x_def by (metis of_int_abs of_int_less_numeral_power_cancel_iff)
  have "(2::real) ^ 53 \<le> 2 ^ 1024" by simp
  with small have "\<not> 2 ^ 1024 \<le> x" "\<not> x \<le> - (2 ^ 1024)" by linarith+
  with y have "fl x = Num x"
    using fl_eval [OF lo hi] e0 by (simp add: Let_def)
  then show ?thesis by (simp add: x_def)
qed

lemma fl_numeral: "numeral n < (2::int) ^ 53 \<Longrightarrow> fl (numeral n) = Num (numeral n)"
  using fl_of_int [of "numeral n"] by simp










section \<open>The ROI calculator\<close>




section \<open>The task sorter\<close>

lemma PRIORITY_ORDER_inj: "PRIORITY_ORDER p = PRIORITY_ORDER q \<longleftrightarrow> p = q"
  by (cases p; cases q) simp_all

lemma compareTasks_sortKey: "compareTasks x y \<le> 0 \<longleftrightarrow> sortKey x \<le> sortKey y"
  by (auto simp: compareTasks_def sortKey_def less_eq_prod_def)

lemma insertTask_insort_key: "insertTask x ys = insort_key sortKey x ys"
  by (induction ys) (simp_all add: compareTasks_sortKey)

lemma sortTasks_sort_key: "sortTasks ts = sort_key sortKey ts"
  by (induction ts) (simp_all add: sortTasks_def insertTask_insort_key)

lemma sortKey_le_rankedBefore: "sortKey a \<le> sortKey b \<Longrightarrow> rankedBefore a b"
  by (auto simp: sortKey_def rankedBefore_def less_eq_prod_def PRIORITY_ORDER_inj)

lemma sortKey_eq:
  "sortKey t = (- PRIORITY_ORDER p, - c) \<longleftrightarrow> priority t = p \<and> createdAt t = c"
  by (auto simp: sortKey_def PRIORITY_ORDER_inj)

text \<open>
  C2: for every list of tasks the sorter returns the same tasks in an order where each
  task is ranked before every task that follows it: it has a strictly higher priority
  (High over Medium over Low, whatever the creation times), or the same priority and
  a creation time at least as recent.
\<close>

theorem sortTasks_ordered:
  "sorted_wrt rankedBefore (sortTasks ts) \<and> mset (sortTasks ts) = mset ts"
proof
  have "sorted (map sortKey (sort_key sortKey ts))"
    by (rule sorted_sort_key)
  then have "sorted_wrt (\<lambda>a b. sortKey a \<le> sortKey b) (sortTasks ts)"
    by (simp add: sorted_map sortTasks_sort_key)
  then show "sorted_wrt rankedBefore (sortTasks ts)"
    by (rule sorted_wrt_mono_rel [rotated]) (simp add: sortKey_le_rankedBefore)
  show "mset (sortTasks ts) = mset ts"
    by (simp add: sortTasks_sort_key)
qed

theorem sortTasks_ordered_witness:
  "sorted_wrt rankedBefore (sortTasks [taskC, taskB, taskA])
   \<and> mset (sortTasks [taskC, taskB, taskA]) = mset [taskC, taskB, taskA]
   \<and> sortTasks [taskC, taskB, taskA] = [taskA, taskB, taskC]"
  using sortTasks_ordered [of "[taskC, taskB, taskA]"]
  by (simp add: sortTasks_def compareTasks_def taskA_def taskB_def taskC_def)

text \<open>
  C3: the sorter is stable: for every priority and creation time, the tasks of the input
  that have exactly that priority and creation time appear in the output in the same
  relative order as in the input. (The sorter is a function from lists to lists, so the
  input list is not changed.)
\<close>

theorem sortTasks_stable:
  "filter (\<lambda>t. priority t = p \<and> createdAt t = c) (sortTasks ts)
   = filter (\<lambda>t. priority t = p \<and> createdAt t = c) ts"
  using sort_key_stable [of sortKey "(- PRIORITY_ORDER p, - c)" ts]
  by (simp add: sortTasks_sort_key sortKey_eq)

theorem sortTasks_stable_witness:
  "sortTasks [taskC, taskD, taskB, taskA] = [taskD, taskA, taskB, taskC]
   \<and> sortTasks [taskC, taskA, taskB, taskD] = [taskA, taskD, taskB, taskC]
   \<and> filter (\<lambda>t. priority t = HIGH \<and> createdAt t = 100) (sortTasks [taskC, taskD, taskB, taskA])
       = [taskD, taskA]"
  using sortTasks_stable [of HIGH 100 "[taskC, taskD, taskB, taskA]"]
  by (simp add: sortTasks_def compareTasks_def taskA_def taskB_def taskC_def taskD_def)

section \<open>The performance grade\<close>

lemma js_le_trans: "js_le a b \<Longrightarrow> js_le b c \<Longrightarrow> js_le a c"
  by (cases a; cases b; cases c) simp_all

lemma getPerformanceGrade_ladder:
  "getPerformanceGrade bands lowest x = gradeLadder bands lowest ! bandIndex bands x"
  by (induction bands) (auto simp: gradeLadder_def)

lemma bandIndex_le: "bandIndex bands x \<le> length bands"
  by (induction bands) auto

lemma bandIndex_mono: "js_le x y \<Longrightarrow> bandIndex bands y \<le> bandIndex bands x"
  by (induction bands) (auto dest: js_le_trans)

text \<open>
  C9: the grade function is a total function of its argument, and it is monotonic: for
  average ROI values x <= y, the grade of y stands at the same place as the grade of x
  or at an earlier one in the ladder of grades from best to worst, whatever the
  thresholds are.
\<close>

theorem getPerformanceGrade_monotonic:
  assumes "js_le x y"
  shows "bandIndex bands y \<le> bandIndex bands x
         \<and> bandIndex bands x < length (gradeLadder bands lowest)
         \<and> getPerformanceGrade bands lowest x = gradeLadder bands lowest ! bandIndex bands x
         \<and> getPerformanceGrade bands lowest y = gradeLadder bands lowest ! bandIndex bands y"
proof -
  have "bandIndex bands x < length (gradeLadder bands lowest)"
    using bandIndex_le [of bands x] by (simp add: gradeLadder_def)
  with assms show ?thesis
    by (simp add: bandIndex_mono getPerformanceGrade_ladder)
qed

theorem getPerformanceGrade_monotonic_witness:
  "js_le (Num 150) (Num 300)
   \<and> bandIndex sampleBands (Num 300) \<le> bandIndex sampleBands (Num 150)
   \<and> getPerformanceGrade sampleBands ''C'' (Num 150) = ''C''
   \<and> getPerformanceGrade sampleBands ''C'' (Num 300) = ''B''
   \<and> gradeLadder sampleBands ''C'' = [''A'', ''B'', ''C'']"
  using getPerformanceGrade_monotonic [of "Num 150" "Num 300" sampleBands "''C''"]
  by (simp add: sampleBands_def gradeLadder_def)

section \<open>Delete and undo\<close>

lemma filter_id_remove1:
  "distinct (map task_id ts) \<Longrightarrow> t \<in> set ts
   \<Longrightarrow> filter (\<lambda>x. task_id x \<noteq> task_id t) ts = remove1 t ts"
proof (induction ts)
  case Nil
  then show ?case by simp
next
  case (Cons a ts)
  show ?case
  proof (cases "a = t")
    case True
    with Cons.prems have "task_id t \<notin> task_id ` set ts" by simp
    then have "\<forall>x\<in>set ts. task_id x \<noteq> task_id t" by (metis imageI)
    then have "filter (\<lambda>x. task_id x \<noteq> task_id t) ts = ts" by simp
    with True show ?thesis by simp
  next
    case False
    with Cons.prems have "t \<in> set ts" "task_id a \<noteq> task_id t" by force+
    with Cons False show ?thesis by simp
  qed
qed

text \<open>
  C4: in a task list with unique ids, deleting one of its tasks removes exactly that
  record (the list is one shorter, the task is gone, every other record stays where it
  was) and keeps the task in the undo buffer; an undo right after puts the same record,
  with every field as it was, back into the list, which then holds the same records as
  before the deletion.
\<close>

theorem delete_then_undo:
  assumes "distinct (map task_id (tasks s))" and "t \<in> set (tasks s)"
  shows "tasks (handleDelete t s) = remove1 t (tasks s)
         \<and> Suc (length (tasks (handleDelete t s))) = length (tasks s)
         \<and> t \<notin> set (tasks (handleDelete t s))
         \<and> lastDeletedTask (handleDelete t s) = Some t
         \<and> t \<in> set (tasks (handleUndo (handleDelete t s)))
         \<and> mset (tasks (handleUndo (handleDelete t s))) = mset (tasks s)"
proof -
  have del: "tasks (handleDelete t s) = remove1 t (tasks s)"
    using assms by (simp add: handleDelete_def filter_id_remove1)
  have len: "Suc (length (tasks (handleDelete t s))) = length (tasks s)"
    using assms(2) by (simp add: del length_remove1) (cases "tasks s"; simp)
  have gone: "t \<notin> set (tasks (handleDelete t s))"
    by (simp add: handleDelete_def)
  have buf: "lastDeletedTask (handleDelete t s) = Some t"
    by (simp add: handleDelete_def)
  have undone: "tasks (handleUndo (handleDelete t s)) = remove1 t (tasks s) @ [t]"
    using del by (simp add: handleUndo_def closeSnackbar_def buf)
  have restored: "t \<in> set (tasks (handleUndo (handleDelete t s)))"
    by (simp add: undone)
  have same: "mset (tasks (handleUndo (handleDelete t s))) = mset (tasks s)"
    using assms(2) by (simp add: undone)
  from del len gone buf restored same show ?thesis by simp
qed

theorem delete_then_undo_witness:
  "distinct (map task_id (tasks (initialState\<lparr>tasks := [taskA, taskB, taskC]\<rparr>)))
   \<and> taskB \<in> set (tasks (initialState\<lparr>tasks := [taskA, taskB, taskC]\<rparr>))
   \<and> tasks (handleDelete taskB (initialState\<lparr>tasks := [taskA, taskB, taskC]\<rparr>))
       = [taskA, taskC]
   \<and> mset (tasks (handleUndo (handleDelete taskB (initialState\<lparr>tasks := [taskA, taskB, taskC]\<rparr>))))
       = mset [taskA, taskB, taskC]"
  using delete_then_undo [of "initialState\<lparr>tasks := [taskA, taskB, taskC]\<rparr>" taskB]
  by (simp add: taskA_def taskB_def taskC_def)

text \<open>
  C10: undo appends: for every list and every deleted task, the list after delete and
  undo is the list after the delete with the deleted task as its last element; and
  undo changes nothing when the undo buffer is empty.
\<close>

theorem undo_appends:
  "tasks (handleUndo (handleDelete t s))
     = filter (\<lambda>x. task_id x \<noteq> task_id t) (tasks s) @ [t]
   \<and> tasks (handleUndo (handleDelete t s)) = tasks (handleDelete t s) @ [t]
   \<and> last (tasks (handleUndo (handleDelete t s))) = t
   \<and> (lastDeletedTask s = None \<longrightarrow> handleUndo s = s)"
  by (simp add: handleUndo_def handleDelete_def closeSnackbar_def)

theorem undo_appends_witness:
  "lastDeletedTask initialState = None \<and> handleUndo initialState = initialState
   \<and> tasks (handleUndo (handleDelete taskA (initialState\<lparr>tasks := [taskA, taskB]\<rparr>)))
       = [taskB, taskA]"
  using undo_appends [of taskA initialState]
    undo_appends [of taskA "initialState\<lparr>tasks := [taskA, taskB]\<rparr>"]
  by (simp add: initialState_def taskA_def taskB_def)

section \<open>Saving a task\<close>

lemma roiDerived_applyTaskData: "roiDerived (applyTaskData form t)"
  by (simp add: roiDerived_def applyTaskData_def)

text \<open>
  C6: after a save, the stored task carries the revenue and time of the form and the
  ROI that the calculator gives for them: a new task is appended with these values;
  an edit rewrites every record with the edited id to these values and leaves the
  other records as they were; and if every task had a derived ROI before the save,
  every task has one after it.
\<close>

theorem save_derives_roi:
  "(editingTask s = None \<longrightarrow>
      (\<exists>t. tasks (handleSaveTask form uuid now s) = tasks s @ [t]
           \<and> revenue t = form_revenue form \<and> timeTaken t = form_timeTaken form
           \<and> roi t = calculateRoi (form_revenue form) (form_timeTaken form)))
   \<and> (\<forall>e. editingTask s = Some e \<longrightarrow>
        length (tasks (handleSaveTask form uuid now s)) = length (tasks s)
        \<and> (\<forall>i < length (tasks s).
             if task_id (tasks s ! i) = task_id e
             then revenue (tasks (handleSaveTask form uuid now s) ! i) = form_revenue form
                  \<and> timeTaken (tasks (handleSaveTask form uuid now s) ! i) = form_timeTaken form
                  \<and> roi (tasks (handleSaveTask form uuid now s) ! i)
                      = calculateRoi (form_revenue form) (form_timeTaken form)
             else tasks (handleSaveTask form uuid now s) ! i = tasks s ! i))
   \<and> ((\<forall>t \<in> set (tasks s). roiDerived t) \<longrightarrow>
        (\<forall>t \<in> set (tasks (handleSaveTask form uuid now s)). roiDerived t))"
proof (intro conjI)
  show "editingTask s = None \<longrightarrow>
      (\<exists>t. tasks (handleSaveTask form uuid now s) = tasks s @ [t]
           \<and> revenue t = form_revenue form \<and> timeTaken t = form_timeTaken form
           \<and> roi t = calculateRoi (form_revenue form) (form_timeTaken form))"
    by (simp add: handleSaveTask_def)
  show "\<forall>e. editingTask s = Some e \<longrightarrow>
        length (tasks (handleSaveTask form uuid now s)) = length (tasks s)
        \<and> (\<forall>i < length (tasks s).
             if task_id (tasks s ! i) = task_id e
             then revenue (tasks (handleSaveTask form uuid now s) ! i) = form_revenue form
                  \<and> timeTaken (tasks (handleSaveTask form uuid now s) ! i) = form_timeTaken form
                  \<and> roi (tasks (handleSaveTask form uuid now s) ! i)
                      = calculateRoi (form_revenue form) (form_timeTaken form)
             else tasks (handleSaveTask form uuid now s) ! i = tasks s ! i)"
    by (simp add: handleSaveTask_def applyTaskData_def)
  show "(\<forall>t \<in> set (tasks s). roiDerived t) \<longrightarrow>
        (\<forall>t \<in> set (tasks (handleSaveTask form uuid now s)). roiDerived t)"
  proof (cases "editingTask s")
    case None
    then show ?thesis by (auto simp: handleSaveTask_def roiDerived_def)
  next
    case (Some e)
    then show ?thesis by (auto simp: handleSaveTask_def roiDerived_applyTaskData)
  qed
qed

theorem save_derives_roi_witness:
  "editingTask (initialState\<lparr>tasks := [taskA, taskB]\<rparr>) = None
   \<and> map roi (tasks (handleSaveTask sampleForm ''9'' 500 (initialState\<lparr>tasks := [taskA, taskB]\<rparr>)))
       = [Num 500, Num 400, Num 100]
   \<and> editingTask (initialState\<lparr>tasks := [taskA, taskB], editingTask := Some taskB\<rparr>) = Some taskB
   \<and> map roi (tasks (handleSaveTask sampleForm ''9'' 500
                      (initialState\<lparr>tasks := [taskA, taskB], editingTask := Some taskB\<rparr>)))
       = [Num 500, Num 100]
   \<and> map roiDerived (tasks (initialState\<lparr>tasks := [taskA, taskB]\<rparr>)) = [True, True]
   \<and> map roiDerived
         (tasks (handleSaveTask sampleForm ''9'' 500 (initialState\<lparr>tasks := [taskA, taskB]\<rparr>)))
       = [True, True, True]"
  using save_derives_roi [of "initialState\<lparr>tasks := [taskA, taskB]\<rparr>" sampleForm "''9''" 500]
    save_derives_roi [of "initialState\<lparr>tasks := [taskA, taskB], editingTask := Some taskB\<rparr>"
      sampleForm "''9''" 500]
  by (simp add: initialState_def handleSaveTask_def applyTaskData_def sampleForm_def
      taskA_def taskB_def roiDerived_def calculateRoi_def fl_numeral)

section \<open>The initial load\<close>

text \<open>
  C7: when the initial load fails, \<open>init\<close> still returns normally, from any state: it
  adds the entry for the failure to the console and leaves the task list as it was;
  from the component's initial state the task list is therefore still empty, and the
  loading flag is cleared whenever the component is still mounted.
\<close>

theorem init_load_failure:
  "init (Inl e) mounted initialState
     = Inr (initialState\<lparr>console := [(''Failed to load tasks'', e)], isLoading := \<not> mounted\<rparr>)
   \<and> (\<exists>s'. init (Inl e) mounted s = Inr s' \<and> tasks s' = tasks s
         \<and> console s' = console s @ [(''Failed to load tasks'', e)]
         \<and> (mounted \<longrightarrow> \<not> isLoading s'))"
  by (simp add: init_def init_try_def initialState_def Let_def)

theorem init_load_failure_witness:
  "init (Inl (LoadError ''quota'')) True initialState
     = Inr \<lparr>tasks = [], isLoading = False, lastDeletedTask = None, showSnackbar = False,
            editingTask = None, isAdding = False,
            console = [(''Failed to load tasks'', LoadError ''quota'')]\<rparr>"
  using init_load_failure [of "LoadError ''quota''" True initialState]
  by (simp add: initialState_def)

section \<open>The summary\<close>



text \<open>
  C5: the summary's avgRoi over the empty task list is 0, not NaN; the quotient that
  the guard on the length skips, the empty sum divided by the length 0, would be NaN.
\<close>

theorem summary_empty_avgRoi:
  "avgRoi (summary bands lowest []) = Num 0
   \<and> avgRoi (summary bands lowest []) \<noteq> NaN
   \<and> js_div (sumRoi []) (Num (real (length ([] :: Task list)))) = NaN"
  by (simp add: summary_def sumRoi_def round2_def Let_def fl_0)




end
